theory Spec2Isabelle
  imports Main
begin

section \<open>Library functions used by \<^verbatim>\<open>pingdom/tms_check.go\<close>\<close>

text \<open>
  A Go \<^verbatim>\<open>string\<close> is a sequence of bytes, and so is a HOL \<^typ>\<open>string\<close>. A Go
  \<^verbatim>\<open>int\<close> is modelled as \<^typ>\<open>int\<close>: the file only compares, copies and prints
  integers, it never does arithmetic on them, so no operation can wrap around.
\<close>

subsection \<open>\<^verbatim>\<open>strconv.Itoa\<close>\<close>

definition digit_char :: "nat \<Rightarrow> char" where
  "digit_char d = char_of (48 + d)"

fun digits :: "nat \<Rightarrow> string" where
  "digits n = (if n < 10 then [digit_char n] else digits (n div 10) @ [digit_char (n mod 10)])"

declare digits.simps [simp del]

definition Itoa :: "int \<Rightarrow> string" where
  "Itoa i = (if i < 0 then CHR ''-'' # digits (nat (- i)) else digits (nat i))"

subsection \<open>\<^verbatim>\<open>strings.Split\<close>, \<^verbatim>\<open>strings.TrimSpace\<close> and \<^verbatim>\<open>strings.Join\<close>\<close>

text \<open>
  \<^verbatim>\<open>strings.Split(s, ",")\<close> cuts \<open>s\<close> at every comma and returns the pieces between
  them, the empty ones too; the empty string gives the one piece \<open>""\<close>. The
  separator of the only call is the one byte \<open>,\<close>, so it is a \<^typ>\<open>char\<close> here.
\<close>

fun Split :: "string \<Rightarrow> char \<Rightarrow> string list" where
  "Split [] sep = [[]]"
| "Split (c # cs) sep =
     (if c = sep then [] # Split cs sep
      else (case Split cs sep of
              [] \<Rightarrow> [[c]]
            | piece # pieces \<Rightarrow> (c # piece) # pieces))"

text \<open>
  \<^verbatim>\<open>strings.TrimSpace\<close> removes the runes for which \<^verbatim>\<open>unicode.IsSpace\<close> holds from
  both ends: the six ASCII ones (tab, line feed, vertical tab, form feed, carriage
  return, space), U+0085, U+00A0, U+1680, U+2000 to U+200A, U+2028, U+2029,
  U+202F, U+205F and U+3000. Over bytes, a rune is at the start (the end) of a
  string exactly when its UTF-8 encoding is a prefix (a suffix) of the string, so
  the model removes these encodings; a byte that starts no such encoding stops the
  trimming, as the replacement rune of an invalid sequence does in Go.
\<close>

definition space_runes :: "string list" where
  "space_runes =
     [[CHR 0x09], [CHR 0x0A], [CHR 0x0B], [CHR 0x0C], [CHR 0x0D], [CHR 0x20],
      [CHR 0xC2, CHR 0x85], [CHR 0xC2, CHR 0xA0],
      [CHR 0xE1, CHR 0x9A, CHR 0x80],
      [CHR 0xE2, CHR 0x80, CHR 0x80], [CHR 0xE2, CHR 0x80, CHR 0x81],
      [CHR 0xE2, CHR 0x80, CHR 0x82], [CHR 0xE2, CHR 0x80, CHR 0x83],
      [CHR 0xE2, CHR 0x80, CHR 0x84], [CHR 0xE2, CHR 0x80, CHR 0x85],
      [CHR 0xE2, CHR 0x80, CHR 0x86], [CHR 0xE2, CHR 0x80, CHR 0x87],
      [CHR 0xE2, CHR 0x80, CHR 0x88], [CHR 0xE2, CHR 0x80, CHR 0x89],
      [CHR 0xE2, CHR 0x80, CHR 0x8A],
      [CHR 0xE2, CHR 0x80, CHR 0xA8], [CHR 0xE2, CHR 0x80, CHR 0xA9],
      [CHR 0xE2, CHR 0x80, CHR 0xAF],
      [CHR 0xE2, CHR 0x81, CHR 0x9F],
      [CHR 0xE3, CHR 0x80, CHR 0x80]]"

definition is_prefix :: "string \<Rightarrow> string \<Rightarrow> bool" where
  "is_prefix p s = (take (length p) s = p)"

text \<open>The width in bytes of the space rune at the start of \<open>s\<close>, 0 when there is none.\<close>

definition space_width :: "string \<Rightarrow> nat" where
  "space_width s = (case filter (\<lambda>p. is_prefix p s) space_runes of [] \<Rightarrow> 0 | p # _ \<Rightarrow> length p)"

text \<open>The same at the end of \<open>s\<close>.\<close>

definition space_width_end :: "string \<Rightarrow> nat" where
  "space_width_end s =
     (case filter (\<lambda>p. is_prefix (rev p) (rev s)) space_runes of [] \<Rightarrow> 0 | p # _ \<Rightarrow> length p)"

function TrimLeft :: "string \<Rightarrow> string" where
  "TrimLeft s = (if space_width s = 0 \<or> length s < space_width s then s
                 else TrimLeft (drop (space_width s) s))"
  by pat_completeness auto
termination
  by (relation "measure length") auto

declare TrimLeft.simps [simp del]

function TrimRight :: "string \<Rightarrow> string" where
  "TrimRight s = (if space_width_end s = 0 \<or> length s < space_width_end s then s
                  else TrimRight (take (length s - space_width_end s) s))"
  by pat_completeness auto
termination
  by (relation "measure length") auto

declare TrimRight.simps [simp del]

definition TrimSpace :: "string \<Rightarrow> string" where
  "TrimSpace s = TrimRight (TrimLeft s)"

fun Join :: "string list \<Rightarrow> string \<Rightarrow> string" where
  "Join [] sep = []"
| "Join [e] sep = e"
| "Join (e # f # es) sep = e @ sep @ Join (f # es) sep"

subsection \<open>UTF-8 as \<^verbatim>\<open>encoding/json\<close> reads it\<close>

text \<open>
  \<^verbatim>\<open>json.Marshal\<close> writes a string rune by rune, as \<^verbatim>\<open>utf8.DecodeRuneInString\<close>
  finds them: a byte that starts no valid UTF-8 sequence is written as the
  replacement rune U+FFFD, one for each such byte, and a valid sequence is written
  as it is (or as an escape that reads back as the same bytes). \<open>rune_width s\<close> is
  the length of the valid sequence at the start of \<open>s\<close>, 0 when there is none: one
  byte below 0x80; a first byte C2 to DF and one continuation byte; E0 to EF and
  two; F0 to F4 and three, where the second byte is at least A0 after E0, at most
  9F after ED (no surrogates), at least 90 after F0 and at most 8F after F4.
  \<open>ValidString\<close> is \<^verbatim>\<open>utf8.ValidString\<close>.
\<close>

definition continuation :: "char \<Rightarrow> bool" where
  "continuation c = (0x80 \<le> (of_char c :: nat) \<and> (of_char c :: nat) \<le> 0xBF)"

definition rune_size :: "nat \<Rightarrow> nat" where
  "rune_size b =
     (if b < 0x80 then 1
      else if 0xC2 \<le> b \<and> b \<le> 0xDF then 2
      else if 0xE0 \<le> b \<and> b \<le> 0xEF then 3
      else if 0xF0 \<le> b \<and> b \<le> 0xF4 then 4
      else 0)"

definition second_byte :: "nat \<Rightarrow> char \<Rightarrow> bool" where
  "second_byte b c =
     (let lo = (if b = 0xE0 then 0xA0 else if b = 0xF0 then 0x90 else 0x80);
          hi = (if b = 0xED then 0x9F else if b = 0xF4 then 0x8F else 0xBF)
      in lo \<le> (of_char c :: nat) \<and> (of_char c :: nat) \<le> hi)"

definition rune_width :: "string \<Rightarrow> nat" where
  "rune_width s =
     (case s of
        [] \<Rightarrow> 0
      | b # rest \<Rightarrow>
          (let n = rune_size (of_char b) in
           if n = 0 \<or> length s < n then 0
           else if n = 1 then 1
           else if second_byte (of_char b) (hd rest)
                   \<and> list_all continuation (take (n - 2) (tl rest))
           then n else 0))"

function ToValidUTF8 :: "string \<Rightarrow> string" where
  "ToValidUTF8 s =
     (if s = [] then []
      else if rune_width s = 0 then [CHR 0xEF, CHR 0xBF, CHR 0xBD] @ ToValidUTF8 (tl s)
      else take (rune_width s) s @ ToValidUTF8 (drop (rune_width s) s))"
  by pat_completeness auto
termination
  by (relation "measure length") auto

declare ToValidUTF8.simps [simp del]

function ValidString :: "string \<Rightarrow> bool" where
  "ValidString s =
     (if s = [] then True
      else if rune_width s = 0 then False
      else ValidString (drop (rune_width s) s))"
  by pat_completeness auto
termination
  by (relation "measure length") auto

declare ValidString.simps [simp del]

subsection \<open>\<^verbatim>\<open>time.Time\<close>\<close>

text \<open>
  A time is a wall clock instant, seconds and nanoseconds, an optional reading of
  the monotonic clock, and the offset of its zone, which only printing reads.
  \<^verbatim>\<open>Before\<close> compares the monotonic readings when both times have one, and the
  instants otherwise, seconds first. \<^verbatim>\<open>Format(time.RFC3339)\<close> is a parameter
  \<open>format\<close> of the functions that print a time.
\<close>

record Time =
  sec :: int
  nsec :: int
  mono :: "int option"
  offset :: int

definition Before :: "Time \<Rightarrow> Time \<Rightarrow> bool" where
  "Before t u =
     (if mono t \<noteq> None \<and> mono u \<noteq> None then the (mono t) < the (mono u)
      else sec t < sec u \<or> (sec t = sec u \<and> nsec t < nsec u))"

section \<open>Data model\<close>

text \<open>
  Errors are values. \<open>Errorf\<close> is an error made by \<^verbatim>\<open>fmt.Errorf\<close> in this file, with
  its message; the other three come from the collaborators (the HTTP transport, the
  response validation, the JSON decoder).
\<close>

datatype error =
    Errorf string
  | TransportError string
  | ResponseError int string
  | DecodeError string

record TmsStep =
  Function :: string
  Args :: "string \<rightharpoonup> string"

text \<open>
  Modelled from the spec: the declaration of the wire-response struct
  \<^verbatim>\<open>TmsCheckResponse\<close>, which is in another file of the package. It has the fields
  that \<^verbatim>\<open>fromTmsCheckResponse\<close> reads, with the types of the fields of the check
  they are copied to; \<open>Tags\<close> is the list of strings that \<^verbatim>\<open>strings.Join\<close> takes.
\<close>

record TmsCheckResponse =
  ID :: int
  Name :: string
  Steps :: "TmsStep list"
  Active :: bool
  ContactIds :: "int list"
  CustomMessage :: string
  IntegrationIds :: "int list"
  Interval :: int
  Region :: string
  SendNotificationWhenDown :: int
  SeverityLevel :: string
  Tags :: "string list"
  TeamIds :: "int list"

record TmsCheck =
  ID :: int
  Name :: string
  Steps :: "TmsStep list"
  Active :: bool
  ContactIds :: "int list"
  CustomMessage :: string
  IntegrationIds :: "int list"
  Interval :: int
  Region :: string
  SendNotificationWhenDown :: int
  SeverityLevel :: string
  Tags :: string
  TeamIds :: "int list"

record TmsStatusReportListByIdRequest =
  From :: "Time option"
  To :: "Time option"
  Order :: string

record TmsStatusReportListRequest =
  From :: "Time option"
  To :: "Time option"
  Order :: string
  Limit :: "int option"
  Offset :: "int option"
  OmitEmpty :: bool

record TmsPerformanceReportRequest =
  From :: "Time option"
  To :: "Time option"
  Order :: string
  IncludeUptime :: bool
  Resolution :: string

definition DESC :: string where "DESC = ''desc''"
definition ASC :: string where "ASC = ''asc''"
definition HOUR :: string where "HOUR = ''hour''"
definition DAY :: string where "DAY = ''day''"
definition WEEK :: string where "WEEK = ''week''"

section \<open>Checks\<close>

definition NewTmsCheck :: "string \<Rightarrow> TmsStep list \<Rightarrow> TmsCheck" where
  "NewTmsCheck name steps =
     \<lparr>TmsCheck.ID = 0, TmsCheck.Name = name, TmsCheck.Steps = steps, TmsCheck.Active = True,
      TmsCheck.ContactIds = [], TmsCheck.CustomMessage = [], TmsCheck.IntegrationIds = [],
      TmsCheck.Interval = 10, TmsCheck.Region = ''us-east'',
      TmsCheck.SendNotificationWhenDown = 1, TmsCheck.SeverityLevel = ''high'',
      TmsCheck.Tags = [], TmsCheck.TeamIds = []\<rparr>"

text \<open>\<^verbatim>\<open>Valid\<close> returns the first violation found, \<open>None\<close> being Go's \<^verbatim>\<open>nil\<close> error.\<close>

definition TmsCheck_Valid :: "TmsCheck \<Rightarrow> error option" where
  "TmsCheck_Valid ts =
     (if TmsCheck.Name ts = [] then
        Some (Errorf ''Invalid value for `Name`.  Must contain non-empty string'')
      else if TmsCheck.Region ts \<noteq> ''us-east'' \<and> TmsCheck.Region ts \<noteq> ''us-west''
              \<and> TmsCheck.Region ts \<noteq> ''eu'' \<and> TmsCheck.Region ts \<noteq> ''au'' then
        Some (Errorf (''invalid value '' @ TmsCheck.Region ts
          @ '' for `Region`, allowed values are [\"us-east\", \"us-west\", \"eu\", \"au\"]''))
      else if TmsCheck.SeverityLevel ts \<noteq> ''high'' \<and> TmsCheck.SeverityLevel ts \<noteq> ''low'' then
        Some (Errorf (''invalid value '' @ TmsCheck.SeverityLevel ts
          @ '' for `SeverityLevel`, allowed values are [\"low\", \"high\"]''))
      else if TmsCheck.Interval ts \<noteq> 5 \<and> TmsCheck.Interval ts \<noteq> 10
              \<and> TmsCheck.Interval ts \<noteq> 20 \<and> TmsCheck.Interval ts \<noteq> 60
              \<and> TmsCheck.Interval ts \<noteq> 720 \<and> TmsCheck.Interval ts \<noteq> 1440 then
        Some (Errorf (''invalid value '' @ Itoa (TmsCheck.Interval ts)
          @ '' for `Interval`, allowed values are [5,10,20,60,720,1440]''))
      else None)"

text \<open>
  \<^verbatim>\<open>RenderForJSONAPI\<close> first builds the list of tags: the loop appends the trimmed
  pieces of \<open>Tags\<close> to an empty slice, in order.
\<close>

definition RenderForJSONAPI_tags :: "TmsCheck \<Rightarrow> string list" where
  "RenderForJSONAPI_tags ts =
     foldl (\<lambda>tags t. tags @ [TrimSpace t]) [] (Split (TmsCheck.Tags ts) CHR '','')"

text \<open>
  It then builds the map \<open>u\<close> of type \<^verbatim>\<open>map[string]interface{}\<close>. A value of
  \<^verbatim>\<open>interface{}\<close> is one of the Go values the function stores there.
\<close>

datatype iface =
    VString string
  | VBool bool
  | VInt int
  | VInts "int list"
  | VStrings "string list"
  | VSteps "TmsStep list"

definition RenderForJSONAPI_u :: "TmsCheck \<Rightarrow> (string \<rightharpoonup> iface)" where
  "RenderForJSONAPI_u ts =
     [''name'' \<mapsto> VString (TmsCheck.Name ts),
      ''steps'' \<mapsto> VSteps (TmsCheck.Steps ts),
      ''active'' \<mapsto> VBool (TmsCheck.Active ts),
      ''contact_ids'' \<mapsto> VInts (TmsCheck.ContactIds ts),
      ''custom_message'' \<mapsto> VString (TmsCheck.CustomMessage ts),
      ''integration_ids'' \<mapsto> VInts (TmsCheck.IntegrationIds ts),
      ''interval'' \<mapsto> VInt (TmsCheck.Interval ts),
      ''region'' \<mapsto> VString (TmsCheck.Region ts),
      ''severity_level'' \<mapsto> VString (TmsCheck.SeverityLevel ts),
      ''send_notification_when_down'' \<mapsto> VInt (TmsCheck.SendNotificationWhenDown ts),
      ''tags'' \<mapsto> VStrings (RenderForJSONAPI_tags ts),
      ''team_ids'' \<mapsto> VInts (TmsCheck.TeamIds ts)]"

text \<open>
  The body is \<^verbatim>\<open>json.Marshal(u)\<close>, whose error is dropped. \<^verbatim>\<open>json.Marshal\<close> is the
  parameter \<open>marshal\<close>: it writes a map as a JSON object with one member for each
  entry of the map (the \<^verbatim>\<open>omitempty\<close> option belongs to struct fields, and \<open>u\<close> is a
  map), so the members of the body are the entries of \<open>u\<close>.
\<close>

definition RenderForJSONAPI :: "((string \<rightharpoonup> iface) \<Rightarrow> string) \<Rightarrow> TmsCheck \<Rightarrow> string" where
  "RenderForJSONAPI marshal ts = marshal (RenderForJSONAPI_u ts)"

definition fromTmsCheckResponse :: "TmsCheckResponse \<Rightarrow> TmsCheck" where
  "fromTmsCheckResponse cr =
     \<lparr>TmsCheck.ID = TmsCheckResponse.ID cr,
      TmsCheck.Name = TmsCheckResponse.Name cr,
      TmsCheck.Steps = TmsCheckResponse.Steps cr,
      TmsCheck.Active = TmsCheckResponse.Active cr,
      TmsCheck.ContactIds = TmsCheckResponse.ContactIds cr,
      TmsCheck.CustomMessage = TmsCheckResponse.CustomMessage cr,
      TmsCheck.IntegrationIds = TmsCheckResponse.IntegrationIds cr,
      TmsCheck.Interval = TmsCheckResponse.Interval cr,
      TmsCheck.Region = TmsCheckResponse.Region cr,
      TmsCheck.SendNotificationWhenDown = TmsCheckResponse.SendNotificationWhenDown cr,
      TmsCheck.SeverityLevel = TmsCheckResponse.SeverityLevel cr,
      TmsCheck.Tags = Join (TmsCheckResponse.Tags cr) '','',
      TmsCheck.TeamIds = TmsCheckResponse.TeamIds cr\<rparr>"

subsection \<open>The body as a JSON document\<close>

text \<open>
  What \<^verbatim>\<open>json.Marshal\<close> writes for the map \<open>u\<close> is a JSON document: an object
  with one member for each entry, the key and every string in the value written
  as UTF-8 (\<open>ToValidUTF8\<close>). An object is the set of its members, a name with a
  value each; two entries whose keys are written alike give two members of one
  name. A slice is written as an array (\<^verbatim>\<open>null\<close> when it is \<^verbatim>\<open>nil\<close>) and reads back
  as the same slice. A step is an object with the members \<open>fn\<close> and \<open>args\<close>, each
  left out when empty (\<^verbatim>\<open>omitempty\<close>) and read back as empty then: \<open>step_fn\<close> and
  \<open>step_args\<close> are empty for a member left out.
\<close>

record step_document =
  step_fn :: string
  step_args :: "(string \<times> string) set"

datatype jvalue =
    JString string
  | JBool bool
  | JNumber int
  | JNumbers "int list"
  | JStrings "string list"
  | JSteps "step_document list"

definition members :: "('v \<Rightarrow> 'd) \<Rightarrow> (string \<rightharpoonup> 'v) \<Rightarrow> (string \<times> 'd) set" where
  "members f m = {(ToValidUTF8 k, f v) | k v. m k = Some v}"

definition json_step :: "TmsStep \<Rightarrow> step_document" where
  "json_step s =
     \<lparr>step_fn = ToValidUTF8 (Function s), step_args = members ToValidUTF8 (Args s)\<rparr>"

fun json_value :: "iface \<Rightarrow> jvalue" where
  "json_value (VString s) = JString (ToValidUTF8 s)"
| "json_value (VBool b) = JBool b"
| "json_value (VInt i) = JNumber i"
| "json_value (VInts ns) = JNumbers ns"
| "json_value (VStrings ss) = JStrings (map ToValidUTF8 ss)"
| "json_value (VSteps steps) = JSteps (map json_step steps)"

definition json_document :: "(string \<rightharpoonup> iface) \<Rightarrow> (string \<times> jvalue) set" where
  "json_document u = members json_value u"

text \<open>
  \<^verbatim>\<open>json.Marshal\<close> returns the text of this document. How a document is laid out
  as text is the parameter \<open>text\<close>.
\<close>

definition json_Marshal ::
  "((string \<times> jvalue) set \<Rightarrow> string) \<Rightarrow> (string \<rightharpoonup> iface) \<Rightarrow> string" where
  "json_Marshal text u = text (json_document u)"

text \<open>
  Modelled from the spec: the synthetic response of the round trip, which no code
  of this file builds. It is the response whose fields are the members read from the
  document of a body, with the identifier \<open>i\<close> that the server assigns. \<open>reading\<close>
  gives the value of the one member with a name; the response is \<open>None\<close> when a
  member is missing, when two members have one name, or when a member holds a value
  of another type.
\<close>

definition reading :: "(string \<times> 'd) set \<Rightarrow> string \<Rightarrow> 'd option" where
  "reading ms k = (if is_singleton (ms `` {k}) then Some (the_elem (ms `` {k})) else None)"

definition read_step :: "step_document \<Rightarrow> TmsStep option" where
  "read_step d =
     (if single_valued (step_args d)
      then Some \<lparr>Function = step_fn d, Args = reading (step_args d)\<rparr>
      else None)"

definition syntheticResponse :: "int \<Rightarrow> (string \<times> jvalue) set \<Rightarrow> TmsCheckResponse option" where
  "syntheticResponse i d =
     (case (reading d ''name'', reading d ''steps'', reading d ''active'',
            reading d ''contact_ids'', reading d ''custom_message'',
            reading d ''integration_ids'', reading d ''interval'', reading d ''region'',
            reading d ''severity_level'', reading d ''send_notification_when_down'',
            reading d ''tags'', reading d ''team_ids'') of
        (Some (JString name), Some (JSteps steps), Some (JBool active),
         Some (JNumbers contacts), Some (JString message), Some (JNumbers integrations),
         Some (JNumber interval), Some (JString region), Some (JString severity),
         Some (JNumber notify), Some (JStrings tags), Some (JNumbers teams)) \<Rightarrow>
          (case those (map read_step steps) of
             None \<Rightarrow> None
           | Some steps' \<Rightarrow>
               Some \<lparr>TmsCheckResponse.ID = i, TmsCheckResponse.Name = name,
                     TmsCheckResponse.Steps = steps', TmsCheckResponse.Active = active,
                     TmsCheckResponse.ContactIds = contacts,
                     TmsCheckResponse.CustomMessage = message,
                     TmsCheckResponse.IntegrationIds = integrations,
                     TmsCheckResponse.Interval = interval, TmsCheckResponse.Region = region,
                     TmsCheckResponse.SendNotificationWhenDown = notify,
                     TmsCheckResponse.SeverityLevel = severity, TmsCheckResponse.Tags = tags,
                     TmsCheckResponse.TeamIds = teams\<rparr>)
      | _ \<Rightarrow> None)"

section \<open>Report requests\<close>

definition TmsStatusReportListByIdRequest_Valid ::
  "TmsStatusReportListByIdRequest \<Rightarrow> error option" where
  "TmsStatusReportListByIdRequest_Valid tr =
     (if TmsStatusReportListByIdRequest.To tr \<noteq> None
         \<and> TmsStatusReportListByIdRequest.From tr \<noteq> None
         \<and> Before (the (TmsStatusReportListByIdRequest.To tr))
                   (the (TmsStatusReportListByIdRequest.From tr)) then
        Some (Errorf ''from date should be earlier then to date'')
      else if TmsStatusReportListByIdRequest.Order tr = DESC
              \<or> TmsStatusReportListByIdRequest.Order tr = ASC
              \<or> TmsStatusReportListByIdRequest.Order tr = [] then None
      else Some (Errorf (''invalid order allowed values are: '' @ ASC @ '', '' @ DESC)))"

definition TmsStatusReportListByIdRequest_GetParams ::
  "(Time \<Rightarrow> string) \<Rightarrow> TmsStatusReportListByIdRequest \<Rightarrow> (string \<rightharpoonup> string)" where
  "TmsStatusReportListByIdRequest_GetParams format tr =
     (let m = Map.empty;
          m = (if TmsStatusReportListByIdRequest.From tr \<noteq> None
               then m(''from'' \<mapsto> format (the (TmsStatusReportListByIdRequest.From tr))) else m);
          m = (if TmsStatusReportListByIdRequest.To tr \<noteq> None
               then m(''to'' \<mapsto> format (the (TmsStatusReportListByIdRequest.To tr))) else m);
          m = (if length (TmsStatusReportListByIdRequest.Order tr) > 0
               then m(''order'' \<mapsto> TmsStatusReportListByIdRequest.Order tr) else m)
      in m)"

definition TmsStatusReportListRequest_Valid :: "TmsStatusReportListRequest \<Rightarrow> error option" where
  "TmsStatusReportListRequest_Valid tr =
     (if TmsStatusReportListRequest.To tr \<noteq> None
         \<and> TmsStatusReportListRequest.From tr \<noteq> None
         \<and> Before (the (TmsStatusReportListRequest.To tr))
                   (the (TmsStatusReportListRequest.From tr)) then
        Some (Errorf ''from date should be earlier then to date'')
      else if Offset tr \<noteq> None \<and> the (Offset tr) < 0 then
        Some (Errorf ''offset should be greater equal 0'')
      else if Limit tr \<noteq> None \<and> the (Limit tr) \<le> 0 then
        Some (Errorf ''limit should be greater 0'')
      else if TmsStatusReportListRequest.Order tr = DESC
              \<or> TmsStatusReportListRequest.Order tr = ASC
              \<or> TmsStatusReportListRequest.Order tr = [] then None
      else Some (Errorf (''invalid order allowed values are: '' @ ASC @ '', '' @ DESC)))"

definition TmsStatusReportListRequest_GetParams ::
  "(Time \<Rightarrow> string) \<Rightarrow> TmsStatusReportListRequest \<Rightarrow> (string \<rightharpoonup> string)" where
  "TmsStatusReportListRequest_GetParams format tr =
     (let m = Map.empty;
          m = (if TmsStatusReportListRequest.From tr \<noteq> None
               then m(''from'' \<mapsto> format (the (TmsStatusReportListRequest.From tr))) else m);
          m = (if TmsStatusReportListRequest.To tr \<noteq> None
               then m(''to'' \<mapsto> format (the (TmsStatusReportListRequest.To tr))) else m);
          m = (if Offset tr \<noteq> None then m(''offset'' \<mapsto> Itoa (the (Offset tr))) else m);
          m = (if Limit tr \<noteq> None then m(''limit'' \<mapsto> Itoa (the (Limit tr))) else m);
          m = (if length (TmsStatusReportListRequest.Order tr) > 0
               then m(''order'' \<mapsto> TmsStatusReportListRequest.Order tr) else m);
          m = (if OmitEmpty tr then m(''omit_empty'' \<mapsto> ''true'') else m)
      in m)"

definition TmsPerformanceReportRequest_Valid :: "TmsPerformanceReportRequest \<Rightarrow> error option" where
  "TmsPerformanceReportRequest_Valid tr =
     (if TmsPerformanceReportRequest.To tr \<noteq> None
         \<and> TmsPerformanceReportRequest.From tr \<noteq> None
         \<and> Before (the (TmsPerformanceReportRequest.To tr))
                   (the (TmsPerformanceReportRequest.From tr)) then
        Some (Errorf ''from date should be earlier then to date'')
      else if \<not> (TmsPerformanceReportRequest.Order tr = DESC
                 \<or> TmsPerformanceReportRequest.Order tr = ASC
                 \<or> TmsPerformanceReportRequest.Order tr = []) then
        Some (Errorf (''invalid order allowed values are: '' @ ASC @ '', '' @ DESC))
      else if Resolution tr = HOUR \<or> Resolution tr = DAY \<or> Resolution tr = WEEK
              \<or> Resolution tr = [] then None
      else Some (Errorf (''invalid order allowed values are: '' @ HOUR @ '', '' @ DAY
                         @ ''. '' @ WEEK)))"

definition TmsPerformanceReportRequest_GetParams ::
  "(Time \<Rightarrow> string) \<Rightarrow> TmsPerformanceReportRequest \<Rightarrow> (string \<rightharpoonup> string)" where
  "TmsPerformanceReportRequest_GetParams format tr =
     (let m = Map.empty;
          m = (if TmsPerformanceReportRequest.From tr \<noteq> None
               then m(''from'' \<mapsto> format (the (TmsPerformanceReportRequest.From tr))) else m);
          m = (if TmsPerformanceReportRequest.To tr \<noteq> None
               then m(''to'' \<mapsto> format (the (TmsPerformanceReportRequest.To tr))) else m);
          m = (if length (TmsPerformanceReportRequest.Order tr) > 0
               then m(''order'' \<mapsto> TmsPerformanceReportRequest.Order tr) else m);
          m = (if IncludeUptime tr then m(''include_uptime'' \<mapsto> ''true'') else m);
          m = (if length (Resolution tr) > 0 then m(''resolution'' \<mapsto> Resolution tr) else m)
      in m)"

section \<open>The service\<close>

text \<open>
  A call of the service returns a value and a \<^verbatim>\<open>nil\<close> error, or an error, or it
  panics on a \<^verbatim>\<open>nil\<close> pointer.
\<close>

datatype 'a outcome =
    Returned 'a
  | Failed error
  | Panicked

text \<open>
  Modelled from the spec: the declarations of the two response envelopes
  \<^verbatim>\<open>tmsCheckDetailsJSONResponse\<close> and \<^verbatim>\<open>listTmsChecksJSONResponse\<close>, which are in
  another file of the package. Each has the field that this file reads; \<open>TmsCheck\<close>
  is a pointer, \<open>None\<close> when it is \<^verbatim>\<open>nil\<close>.
\<close>

record tmsCheckDetailsJSONResponse =
  TmsCheck :: "TmsCheckResponse option"

record listTmsChecksJSONResponse =
  TmsChecks :: "TmsCheckResponse list"

text \<open>
  The service works through collaborators whose code is not in this file: the
  methods of \<^verbatim>\<open>Client\<close>, the HTTP client inside it, \<^verbatim>\<open>validateResponse\<close>, and the
  \<^verbatim>\<open>json\<close>, \<^verbatim>\<open>ioutil\<close> and \<^verbatim>\<open>time\<close> packages. They are the fields of the service,
  any functions at all. Whatever a collaborator does to the outside (building a
  request, sending it, reading or closing a body) is a change of a world \<open>'w\<close> that
  each call takes and returns; \<open>'req\<close> is \<^verbatim>\<open>*http.Request\<close>, \<open>'resp\<close> is
  \<^verbatim>\<open>*http.Response\<close>, \<open>'sc\<close> and \<open>'pr\<close> are the two report responses.
  \<^item> \<open>client_Do_check\<close>, \<open>client_Do_status\<close> and \<open>client_Do_performance\<close> are
    \<^verbatim>\<open>Client.Do(req, m)\<close> for the three types of \<open>m\<close>: they return the error, or
    the content of \<open>m\<close> afterwards.
  \<^item> \<open>Unmarshal\<close> is \<^verbatim>\<open>json.Unmarshal(body, &m)\<close> on a pointer to the pointer \<open>m\<close>: it
    returns \<open>m\<close> afterwards (\<open>None\<close> when it has set \<open>m\<close> to \<^verbatim>\<open>nil\<close>, as it does for
    the body \<^verbatim>\<open>null\<close>) and its error.
  \<^item> \<open>ReadAll\<close> returns the bytes read; \<^verbatim>\<open>List\<close> drops its error.
\<close>

record ('req, 'resp, 'w, 'sc, 'pr) TmsCheckService =
  client_NewRequest :: "string \<Rightarrow> string \<Rightarrow> (string \<rightharpoonup> string) \<Rightarrow> 'w \<Rightarrow> (error + 'req) \<times> 'w"
  client_NewJSONRequest :: "string \<Rightarrow> string \<Rightarrow> string \<Rightarrow> 'w \<Rightarrow> (error + 'req) \<times> 'w"
  client_Do_check :: "'req \<Rightarrow> 'w \<Rightarrow> (error + tmsCheckDetailsJSONResponse) \<times> 'w"
  client_Do_status :: "'req \<Rightarrow> 'w \<Rightarrow> (error + 'sc) \<times> 'w"
  client_Do_performance :: "'req \<Rightarrow> 'w \<Rightarrow> (error + 'pr) \<times> 'w"
  client_client_Do :: "'req \<Rightarrow> 'w \<Rightarrow> (error + 'resp) \<times> 'w"
  validateResponse :: "'resp \<Rightarrow> error option"
  ReadAll :: "'resp \<Rightarrow> 'w \<Rightarrow> string \<times> 'w"
  Body_Close :: "'resp \<Rightarrow> 'w \<Rightarrow> 'w"
  Unmarshal :: "string \<Rightarrow> listTmsChecksJSONResponse option \<times> error option"
  Marshal :: "(string \<rightharpoonup> iface) \<Rightarrow> string"
  Format_RFC3339 :: "Time \<Rightarrow> string"

text \<open>
  \<^verbatim>\<open>List\<close>. The deferred \<^verbatim>\<open>resp.Body.Close()\<close> runs on every way out once the
  response is there. The error of \<^verbatim>\<open>json.Unmarshal\<close> is assigned and never read.
\<close>

definition List ::
  "('req, 'resp, 'w, 'sc, 'pr) TmsCheckService \<Rightarrow> (string \<rightharpoonup> string) list \<Rightarrow> 'w
   \<Rightarrow> TmsCheck list outcome \<times> 'w" where
  "List cs params w =
     (let param = (if length params = 1 then params ! 0 else Map.empty) in
      case client_NewRequest cs ''GET'' ''/tms/check'' param w of
        (Inl err, w1) \<Rightarrow> (Failed err, w1)
      | (Inr req, w1) \<Rightarrow>
          (case client_client_Do cs req w1 of
             (Inl err, w2) \<Rightarrow> (Failed err, w2)
           | (Inr resp, w2) \<Rightarrow>
               (case validateResponse cs resp of
                  Some err \<Rightarrow> (Failed err, Body_Close cs resp w2)
                | None \<Rightarrow>
                    (case ReadAll cs resp w2 of
                       (bodyString, w3) \<Rightarrow>
                         (case Unmarshal cs bodyString of
                            (None, err) \<Rightarrow> (Panicked, Body_Close cs resp w3)
                          | (Some m, err) \<Rightarrow>
                              (Returned
                                 (foldl (\<lambda>checks cr. checks @ [fromTmsCheckResponse cr]) []
                                    (TmsChecks m)),
                               Body_Close cs resp w3))))))"

text \<open>The last step of \<^verbatim>\<open>Create\<close>, \<^verbatim>\<open>Read\<close> and \<^verbatim>\<open>Update\<close>: \<^verbatim>\<open>fromTmsCheckResponse(m.TmsCheck)\<close>.\<close>

definition checkOfDetails :: "tmsCheckDetailsJSONResponse \<Rightarrow> TmsCheck outcome" where
  "checkOfDetails m =
     (case TmsCheck m of None \<Rightarrow> Panicked | Some cr \<Rightarrow> Returned (fromTmsCheckResponse cr))"

definition Create ::
  "('req, 'resp, 'w, 'sc, 'pr) TmsCheckService \<Rightarrow> TmsCheck \<Rightarrow> 'w \<Rightarrow> TmsCheck outcome \<times> 'w" where
  "Create cs check w =
     (case TmsCheck_Valid check of
        Some err \<Rightarrow> (Failed err, w)
      | None \<Rightarrow>
          (case client_NewJSONRequest cs ''POST'' ''/tms/check''
                  (RenderForJSONAPI (Marshal cs) check) w of
             (Inl err, w1) \<Rightarrow> (Failed err, w1)
           | (Inr req, w1) \<Rightarrow>
               (case client_Do_check cs req w1 of
                  (Inl err, w2) \<Rightarrow> (Failed err, w2)
                | (Inr m, w2) \<Rightarrow> (checkOfDetails m, w2))))"

definition Read ::
  "('req, 'resp, 'w, 'sc, 'pr) TmsCheckService \<Rightarrow> int \<Rightarrow> 'w \<Rightarrow> TmsCheck outcome \<times> 'w" where
  "Read cs i w =
     (case client_NewRequest cs ''GET'' (''/tms/check/'' @ Itoa i) Map.empty w of
        (Inl err, w1) \<Rightarrow> (Failed err, w1)
      | (Inr req, w1) \<Rightarrow>
          (case client_Do_check cs req w1 of
             (Inl err, w2) \<Rightarrow> (Failed err, w2)
           | (Inr m, w2) \<Rightarrow> (checkOfDetails m, w2)))"

definition Update ::
  "('req, 'resp, 'w, 'sc, 'pr) TmsCheckService \<Rightarrow> int \<Rightarrow> TmsCheck \<Rightarrow> 'w
   \<Rightarrow> TmsCheck outcome \<times> 'w" where
  "Update cs i tmsCheck w =
     (case TmsCheck_Valid tmsCheck of
        Some err \<Rightarrow> (Failed err, w)
      | None \<Rightarrow>
          (case client_NewJSONRequest cs ''PUT'' (''/tms/check/'' @ Itoa i)
                  (RenderForJSONAPI (Marshal cs) tmsCheck) w of
             (Inl err, w1) \<Rightarrow> (Failed err, w1)
           | (Inr req, w1) \<Rightarrow>
               (case client_Do_check cs req w1 of
                  (Inl err, w2) \<Rightarrow> (Failed err, w2)
                | (Inr m, w2) \<Rightarrow> (checkOfDetails m, w2))))"

definition StatusReportList ::
  "('req, 'resp, 'w, 'sc, 'pr) TmsCheckService \<Rightarrow> TmsStatusReportListRequest \<Rightarrow> 'w
   \<Rightarrow> 'sc outcome \<times> 'w" where
  "StatusReportList cs request w =
     (case TmsStatusReportListRequest_Valid request of
        Some err \<Rightarrow> (Failed err, w)
      | None \<Rightarrow>
          (case client_NewRequest cs ''GET'' ''/tms/check/report/status''
                  (TmsStatusReportListRequest_GetParams (Format_RFC3339 cs) request) w of
             (Inl err, w1) \<Rightarrow> (Failed err, w1)
           | (Inr req, w1) \<Rightarrow>
               (case client_Do_status cs req w1 of
                  (Inl err, w2) \<Rightarrow> (Failed err, w2)
                | (Inr m, w2) \<Rightarrow> (Returned m, w2))))"

definition StatusReportById ::
  "('req, 'resp, 'w, 'sc, 'pr) TmsCheckService \<Rightarrow> int \<Rightarrow> TmsStatusReportListByIdRequest \<Rightarrow> 'w
   \<Rightarrow> 'sc outcome \<times> 'w" where
  "StatusReportById cs i request w =
     (case TmsStatusReportListByIdRequest_Valid request of
        Some err \<Rightarrow> (Failed err, w)
      | None \<Rightarrow>
          (case client_NewRequest cs ''GET'' (''/tms/check/'' @ Itoa i @ ''/report/status'')
                  (TmsStatusReportListByIdRequest_GetParams (Format_RFC3339 cs) request) w of
             (Inl err, w1) \<Rightarrow> (Failed err, w1)
           | (Inr req, w1) \<Rightarrow>
               (case client_Do_status cs req w1 of
                  (Inl err, w2) \<Rightarrow> (Failed err, w2)
                | (Inr m, w2) \<Rightarrow> (Returned m, w2))))"

definition PerformanceReport ::
  "('req, 'resp, 'w, 'sc, 'pr) TmsCheckService \<Rightarrow> int \<Rightarrow> TmsPerformanceReportRequest \<Rightarrow> 'w
   \<Rightarrow> 'pr outcome \<times> 'w" where
  "PerformanceReport cs i request w =
     (case TmsPerformanceReportRequest_Valid request of
        Some err \<Rightarrow> (Failed err, w)
      | None \<Rightarrow>
          (case client_NewRequest cs ''GET''
                  (''/tms/check/'' @ Itoa i @ ''/report/performance'')
                  (TmsPerformanceReportRequest_GetParams (Format_RFC3339 cs) request) w of
             (Inl err, w1) \<Rightarrow> (Failed err, w1)
           | (Inr req, w1) \<Rightarrow>
               (case client_Do_performance cs req w1 of
                  (Inl err, w2) \<Rightarrow> (Failed err, w2)
                | (Inr m, w2) \<Rightarrow> (Returned m, w2))))"

section \<open>The round trip and example values\<close>

text \<open>
  The round trip of a check: \<^verbatim>\<open>RenderForJSONAPI\<close> renders it, \<open>parse\<close> reads the
  document of the body back from its text, the server answers with the synthetic
  response of that document, and \<^verbatim>\<open>fromTmsCheckResponse\<close> maps the response back.
\<close>

definition roundTrip ::
  "((string \<times> jvalue) set \<Rightarrow> string) \<Rightarrow> (string \<Rightarrow> (string \<times> jvalue) set option) \<Rightarrow> int
   \<Rightarrow> TmsCheck \<Rightarrow> TmsCheck option" where
  "roundTrip text parse i ts =
     (case parse (RenderForJSONAPI (json_Marshal text) ts) of
        None \<Rightarrow> None
      | Some d \<Rightarrow> map_option fromTmsCheckResponse (syntheticResponse i d))"

text \<open>A step is valid when its strings are valid UTF-8.\<close>

definition ValidStep :: "TmsStep \<Rightarrow> bool" where
  "ValidStep s =
     (ValidString (Function s) \<and> (\<forall>k \<in> dom (Args s). ValidString k)
      \<and> (\<forall>v \<in> ran (Args s). ValidString v))"

text \<open>
  An example check with one step and the tags \<open>a, b,c\<close>, the body that
  \<^verbatim>\<open>json.Marshal\<close> writes for it, and a layout and a reader that know this one
  document and its body.
\<close>

definition exampleSteps :: "TmsStep list" where
  "exampleSteps = [\<lparr>Function = ''go_to'', Args = [''url'' \<mapsto> ''https://example.com'']\<rparr>]"

definition exampleCheck :: TmsCheck where
  "exampleCheck = (NewTmsCheck ''web'' exampleSteps)\<lparr>TmsCheck.Tags := ''a, b,c''\<rparr>"

definition exampleBody :: string where
  "exampleBody =
     ''{\"active\":true,\"contact_ids\":null,\"custom_message\":\"\",''
     @ ''\"integration_ids\":null,\"interval\":10,\"name\":\"web\",\"region\":\"us-east\",''
     @ ''\"send_notification_when_down\":1,\"severity_level\":\"high\",''
     @ ''\"steps\":[{\"fn\":\"go_to\",\"args\":{\"url\":\"https://example.com\"}}],''
     @ ''\"tags\":[\"a\",\"b\",\"c\"],\"team_ids\":null}''"

definition exampleText :: "(string \<times> jvalue) set \<Rightarrow> string" where
  "exampleText d =
     (if d = json_document (RenderForJSONAPI_u exampleCheck) then exampleBody else [])"

definition exampleParse :: "string \<Rightarrow> (string \<times> jvalue) set option" where
  "exampleParse s =
     (if s = exampleBody then Some (json_document (RenderForJSONAPI_u exampleCheck)) else None)"

text \<open>A check with the defaults and the region \<open>mars\<close>.\<close>

definition marsCheck :: TmsCheck where
  "marsCheck = (NewTmsCheck ''web'' [])\<lparr>TmsCheck.Region := ''mars''\<rparr>"

text \<open>Two times one hour apart, and the three requests with nothing set.\<close>

definition earlier :: Time where
  "earlier = \<lparr>sec = 1600000000, nsec = 0, mono = None, offset = 0\<rparr>"

definition later :: Time where
  "later = \<lparr>sec = 1600003600, nsec = 0, mono = None, offset = 0\<rparr>"

definition emptyByIdRequest :: TmsStatusReportListByIdRequest where
  "emptyByIdRequest =
     \<lparr>TmsStatusReportListByIdRequest.From = None, TmsStatusReportListByIdRequest.To = None,
      TmsStatusReportListByIdRequest.Order = ''''\<rparr>"

definition emptyListRequest :: TmsStatusReportListRequest where
  "emptyListRequest =
     \<lparr>TmsStatusReportListRequest.From = None, TmsStatusReportListRequest.To = None,
      TmsStatusReportListRequest.Order = '''', Limit = None, Offset = None, OmitEmpty = False\<rparr>"

definition emptyPerformanceRequest :: TmsPerformanceReportRequest where
  "emptyPerformanceRequest =
     \<lparr>TmsPerformanceReportRequest.From = None, TmsPerformanceReportRequest.To = None,
      TmsPerformanceReportRequest.Order = '''', IncludeUptime = False, Resolution = ''''\<rparr>"

text \<open>
  A service whose world is the number of calls made to its collaborators so far:
  each of them adds one. A request is its method and path, a response is its body.
  The server answers every request with the body \<^verbatim>\<open><html>\<close>, which the decoder
  rejects, leaving \<open>m\<close> as it was.
\<close>

definition exampleService :: "(string \<times> string, string, nat, unit, unit) TmsCheckService" where
  "exampleService =
     \<lparr>client_NewRequest = (\<lambda>method rsc params w. (Inr (method, rsc), Suc w)),
      client_NewJSONRequest = (\<lambda>method rsc body w. (Inr (method, rsc), Suc w)),
      client_Do_check = (\<lambda>req w. (Inr \<lparr>TmsCheck = None\<rparr>, Suc w)),
      client_Do_status = (\<lambda>req w. (Inr (), Suc w)),
      client_Do_performance = (\<lambda>req w. (Inr (), Suc w)),
      client_client_Do = (\<lambda>req w. (Inr ''<html>'', Suc w)),
      validateResponse = (\<lambda>resp. None),
      ReadAll = (\<lambda>resp w. (resp, Suc w)),
      Body_Close = (\<lambda>resp w. Suc w),
      Unmarshal = (\<lambda>body. if body = ''<html>''
                             then (Some \<lparr>TmsChecks = []\<rparr>, Some (DecodeError ''invalid character''))
                             else (Some \<lparr>TmsChecks = []\<rparr>, None)),
      Marshal = (\<lambda>u. ''{}''),
      Format_RFC3339 = (\<lambda>t. ''2020-09-13T12:26:40Z'')\<rparr>"

section \<open>Properties of the library functions\<close>

lemma foldl_snoc_map: "foldl (\<lambda>acc x. acc @ [f x]) acc xs = acc @ map f xs"
  by (induction xs arbitrary: acc) simp_all

lemma Split_not_Nil: "Split s sep \<noteq> []"
  by (induction s) (auto split: list.splits)


lemma Split_pieces_no_sep: "p \<in> set (Split s sep) \<Longrightarrow> sep \<notin> set p"
  by (induction s arbitrary: p) (auto split: list.splits if_splits)

lemma Join_Cons: "ps \<noteq> [] \<Longrightarrow> Join (p # ps) sep = p @ sep @ Join ps sep"
  by (cases ps) simp_all

text \<open>Joining the pieces of a string with the separator gives the string back.\<close>

lemma Join_Split: "Join (Split s sep) [sep] = s"
proof (induction s)
  case Nil
  show ?case by simp
next
  case (Cons c cs)
  show ?case
  proof (cases "c = sep")
    case True
    with Cons show ?thesis by (simp add: Join_Cons Split_not_Nil)
  next
    case False
    obtain p ps where "Split cs sep = p # ps"
      using Split_not_Nil [of cs sep] by (cases "Split cs sep") auto
    with Cons False show ?thesis by (cases ps) auto
  qed
qed


lemma TrimSpace_examples:
  "TrimSpace '' b'' = ''b''"
  "TrimSpace [CHR 0x09, CHR ''b'', CHR '' '', CHR ''c'', CHR 0x0A, CHR 0xC2, CHR 0xA0] = ''b c''"
  "TrimSpace [CHR 0xE3, CHR 0x80, CHR 0x80, CHR 0xE3, CHR 0x80] = [CHR 0xE3, CHR 0x80]"
  by code_simp+

lemma Itoa_examples: "Itoa 42 = ''42''" "Itoa 0 = ''0''" "Itoa (- 7) = ''-7''"
  by code_simp+

section \<open>Properties of the checks\<close>

text \<open>
  C1: for every check, \<^verbatim>\<open>Valid()\<close> returns no error if and only if the name is not
  empty, the region is one of us-east, us-west, eu, au, the severity level is one of
  high, low, and the interval is one of 5, 10, 20, 60, 720, 1440.
\<close>

theorem TmsCheck_Valid_iff:
  "TmsCheck_Valid ts = None \<longleftrightarrow>
     TmsCheck.Name ts \<noteq> ''''
     \<and> TmsCheck.Region ts \<in> {''us-east'', ''us-west'', ''eu'', ''au''}
     \<and> TmsCheck.SeverityLevel ts \<in> {''high'', ''low''}
     \<and> TmsCheck.Interval ts \<in> {5, 10, 20, 60, 720, 1440}"
  unfolding TmsCheck_Valid_def by simp

lemma NewTmsCheck_Valid: "name \<noteq> [] \<Longrightarrow> TmsCheck_Valid (NewTmsCheck name steps) = None"
  by (simp add: TmsCheck_Valid_def NewTmsCheck_def)

lemma TmsCheck_Valid_Errorf: "TmsCheck_Valid ts = Some err \<Longrightarrow> \<exists>msg. err = Errorf msg"
  by (auto simp add: TmsCheck_Valid_def split: if_splits)

lemma TmsCheck_Valid_mars: "TmsCheck.Region ts = ''mars'' \<Longrightarrow> TmsCheck_Valid ts \<noteq> None"
  by (simp add: TmsCheck_Valid_def)

subsection \<open>The body of Create and Update\<close>

lemma RenderForJSONAPI_tags_map:
  "RenderForJSONAPI_tags ts = map TrimSpace (Split (TmsCheck.Tags ts) CHR '','')"
  by (simp add: RenderForJSONAPI_tags_def foldl_snoc_map)

lemma RenderForJSONAPI_u_lookup:
  "RenderForJSONAPI_u ts ''name'' = Some (VString (TmsCheck.Name ts))"
  "RenderForJSONAPI_u ts ''steps'' = Some (VSteps (TmsCheck.Steps ts))"
  "RenderForJSONAPI_u ts ''active'' = Some (VBool (TmsCheck.Active ts))"
  "RenderForJSONAPI_u ts ''contact_ids'' = Some (VInts (TmsCheck.ContactIds ts))"
  "RenderForJSONAPI_u ts ''custom_message'' = Some (VString (TmsCheck.CustomMessage ts))"
  "RenderForJSONAPI_u ts ''integration_ids'' = Some (VInts (TmsCheck.IntegrationIds ts))"
  "RenderForJSONAPI_u ts ''interval'' = Some (VInt (TmsCheck.Interval ts))"
  "RenderForJSONAPI_u ts ''region'' = Some (VString (TmsCheck.Region ts))"
  "RenderForJSONAPI_u ts ''severity_level'' = Some (VString (TmsCheck.SeverityLevel ts))"
  "RenderForJSONAPI_u ts ''send_notification_when_down''
     = Some (VInt (TmsCheck.SendNotificationWhenDown ts))"
  "RenderForJSONAPI_u ts ''tags'' = Some (VStrings (RenderForJSONAPI_tags ts))"
  "RenderForJSONAPI_u ts ''team_ids'' = Some (VInts (TmsCheck.TeamIds ts))"
  by (simp_all add: RenderForJSONAPI_u_def)

lemma dom_RenderForJSONAPI_u:
  "dom (RenderForJSONAPI_u ts) =
     {''name'', ''steps'', ''active'', ''contact_ids'', ''custom_message'', ''integration_ids'',
      ''interval'', ''region'', ''severity_level'', ''send_notification_when_down'', ''tags'',
      ''team_ids''}"
  unfolding RenderForJSONAPI_u_def by (simp add: insert_commute)

text \<open>
  C2, as the claim states it, fails: the check that \<^verbatim>\<open>NewTmsCheck\<close> makes has an
  empty custom message and no contact identifiers, and the map that is encoded as
  the body still has the members \<open>custom_message\<close> and \<open>contact_ids\<close>, holding these
  zero values.
\<close>

theorem RenderForJSONAPI_keeps_zero_values:
  "TmsCheck.CustomMessage (NewTmsCheck ''web'' []) = ''''
   \<and> TmsCheck.ContactIds (NewTmsCheck ''web'' []) = []
   \<and> RenderForJSONAPI_u (NewTmsCheck ''web'' []) ''custom_message'' = Some (VString '''')
   \<and> RenderForJSONAPI_u (NewTmsCheck ''web'' []) ''contact_ids'' = Some (VInts [])"
  by (simp add: RenderForJSONAPI_u_def NewTmsCheck_def)

text \<open>
  C2, amended: for every check, the body of Create and Update is the encoding of a
  map with the same twelve members, whatever the values of the fields: no member is
  dropped when its field is empty or zero, and \<open>name\<close>, \<open>steps\<close> and \<open>active\<close> are
  among them. Eleven members hold the value of their field as it is; the member
  \<open>tags\<close> holds the list of the pieces of \<open>Tags\<close> between commas, each trimmed.
\<close>

theorem RenderForJSONAPI_all_members:
  "RenderForJSONAPI marshal ts = marshal (RenderForJSONAPI_u ts)
   \<and> dom (RenderForJSONAPI_u ts) =
       {''name'', ''steps'', ''active'', ''contact_ids'', ''custom_message'',
        ''integration_ids'', ''interval'', ''region'', ''severity_level'',
        ''send_notification_when_down'', ''tags'', ''team_ids''}
   \<and> RenderForJSONAPI_u ts ''name'' = Some (VString (TmsCheck.Name ts))
   \<and> RenderForJSONAPI_u ts ''steps'' = Some (VSteps (TmsCheck.Steps ts))
   \<and> RenderForJSONAPI_u ts ''active'' = Some (VBool (TmsCheck.Active ts))
   \<and> RenderForJSONAPI_u ts ''contact_ids'' = Some (VInts (TmsCheck.ContactIds ts))
   \<and> RenderForJSONAPI_u ts ''custom_message'' = Some (VString (TmsCheck.CustomMessage ts))
   \<and> RenderForJSONAPI_u ts ''integration_ids'' = Some (VInts (TmsCheck.IntegrationIds ts))
   \<and> RenderForJSONAPI_u ts ''interval'' = Some (VInt (TmsCheck.Interval ts))
   \<and> RenderForJSONAPI_u ts ''region'' = Some (VString (TmsCheck.Region ts))
   \<and> RenderForJSONAPI_u ts ''severity_level'' = Some (VString (TmsCheck.SeverityLevel ts))
   \<and> RenderForJSONAPI_u ts ''send_notification_when_down''
       = Some (VInt (TmsCheck.SendNotificationWhenDown ts))
   \<and> RenderForJSONAPI_u ts ''tags''
       = Some (VStrings (map TrimSpace (Split (TmsCheck.Tags ts) CHR '','')))
   \<and> RenderForJSONAPI_u ts ''team_ids'' = Some (VInts (TmsCheck.TeamIds ts))"
  by (simp add: dom_RenderForJSONAPI_u RenderForJSONAPI_u_lookup RenderForJSONAPI_def
      RenderForJSONAPI_tags_map)



subsection \<open>The round trip\<close>

lemma ToValidUTF8_valid: "ValidString s \<Longrightarrow> ToValidUTF8 s = s"
proof (induction s rule: ToValidUTF8.induct)
  case (1 s)
  show ?case
  proof (cases "s = []")
    case True
    then show ?thesis by (simp add: ToValidUTF8.simps)
  next
    case False
    from "1.prems" False have w: "rune_width s \<noteq> 0"
      and rest: "ValidString (drop (rune_width s) s)"
      by (auto simp add: ValidString.simps [of s] split: if_splits)
    from "1.IH"(2) [OF False w rest] False w show ?thesis
      by (simp add: ToValidUTF8.simps [of s])
  qed
qed

lemma ToValidUTF8_examples:
  "ToValidUTF8 [CHR 0xFF] = [CHR 0xEF, CHR 0xBF, CHR 0xBD]"
  "ToValidUTF8 [CHR 0xEF, CHR 0xBF, CHR 0xBD] = [CHR 0xEF, CHR 0xBF, CHR 0xBD]"
  "ToValidUTF8 [CHR 0xE2, CHR 0x80] = [CHR 0xEF, CHR 0xBF, CHR 0xBD, CHR 0xEF, CHR 0xBF, CHR 0xBD]"
  "ToValidUTF8 [CHR 0xC3, CHR 0xA9] = [CHR 0xC3, CHR 0xA9]"
  "ToValidUTF8 [] = []"
  by code_simp+

lemma ValidString_keys:
  "ValidString ''name''" "ValidString ''steps''" "ValidString ''active''"
  "ValidString ''contact_ids''" "ValidString ''custom_message''"
  "ValidString ''integration_ids''" "ValidString ''interval''" "ValidString ''region''"
  "ValidString ''severity_level''" "ValidString ''send_notification_when_down''"
  "ValidString ''tags''" "ValidString ''team_ids''"
  by code_simp+

lemma ValidString_examples:
  "ValidString ''web''" "ValidString ''us-east''" "ValidString ''high''" "ValidString ''go_to''"
  "ValidString ''url''" "ValidString ''https://example.com''"
  "ValidString ''a''" "ValidString ''b''" "ValidString ''c''"
  by code_simp+

lemma members_Image:
  assumes "\<forall>k \<in> dom m. ToValidUTF8 k = k"
  shows "members f m `` {k} = (case m k of None \<Rightarrow> {} | Some v \<Rightarrow> {f v})"
proof (cases "m k")
  case None
  have "members f m `` {k} = {}"
  proof (rule ccontr)
    assume "members f m `` {k} \<noteq> {}"
    then obtain k0 v where "m k0 = Some v" and "ToValidUTF8 k0 = k"
      by (auto simp add: members_def)
    with assms have "m k = Some v" by (metis domI)
    with None show False by simp
  qed
  with None show ?thesis by simp
next
  case (Some v)
  have "members f m `` {k} = {f v}"
  proof
    show "members f m `` {k} \<subseteq> {f v}"
    proof
      fix x assume "x \<in> members f m `` {k}"
      then obtain k0 v0 where k0: "m k0 = Some v0" and "ToValidUTF8 k0 = k" and x: "x = f v0"
        by (auto simp add: members_def)
      with assms have "k0 = k" by (metis domI)
      with k0 Some x show "x \<in> {f v}" by simp
    qed
    from Some have "(ToValidUTF8 k, f v) \<in> members f m"
      unfolding members_def by blast
    moreover from assms Some have "ToValidUTF8 k = k" by (metis domI)
    ultimately show "{f v} \<subseteq> members f m `` {k}" by auto
  qed
  with Some show ?thesis by simp
qed

lemma reading_members:
  "\<forall>k \<in> dom m. ToValidUTF8 k = k \<Longrightarrow> reading (members f m) k = map_option f (m k)"
  by (simp add: reading_def members_Image is_singleton_def split: option.splits)

lemma single_valued_members:
  assumes "\<forall>k \<in> dom m. ToValidUTF8 k = k"
  shows "single_valued (members f m)"
proof (rule single_valuedI)
  fix x y z
  assume "(x, y) \<in> members f m" and "(x, z) \<in> members f m"
  then have "y \<in> members f m `` {x}" and "z \<in> members f m `` {x}" by auto
  then show "y = z"
    by (auto simp add: members_Image [OF assms] split: option.splits)
qed

lemma members_cong:
  assumes "\<And>k. map_option f (m1 k) = map_option f (m2 k)"
  shows "members f m1 = members f m2"
proof -
  have "members f a \<subseteq> members f b" if "\<And>k. map_option f (a k) = map_option f (b k)" for a b
  proof
    fix x assume "x \<in> members f a"
    then obtain k v where x: "x = (ToValidUTF8 k, f v)" and "a k = Some v"
      by (auto simp add: members_def)
    with that [of k] obtain v' where "b k = Some v'" and "f v' = f v"
      by (cases "b k") auto
    with x show "x \<in> members f b" by (force simp add: members_def)
  qed
  with assms show ?thesis by (simp add: subset_antisym)
qed

lemma read_step_json_step: "ValidStep s \<Longrightarrow> read_step (json_step s) = Some s"
proof -
  assume v: "ValidStep s"
  then have keys: "\<forall>k \<in> dom (Args s). ToValidUTF8 k = k"
    by (simp add: ValidStep_def ToValidUTF8_valid)
  have "reading (members ToValidUTF8 (Args s)) k = Args s k" for k
  proof (cases "Args s k")
    case None
    with keys show ?thesis by (simp add: reading_members)
  next
    case (Some x)
    then have "x \<in> ran (Args s)" by (auto simp add: ran_def)
    with v have "ToValidUTF8 x = x" by (simp add: ValidStep_def ToValidUTF8_valid)
    with keys Some show ?thesis by (simp add: reading_members)
  qed
  then have "reading (members ToValidUTF8 (Args s)) = Args s" by (rule ext)
  with v keys show ?thesis
    by (simp add: read_step_def json_step_def single_valued_members ValidStep_def
        ToValidUTF8_valid)
qed

lemma those_read_steps:
  "list_all ValidStep steps \<Longrightarrow> those (map (read_step \<circ> json_step) steps) = Some steps"
  by (induction steps) (simp_all add: read_step_json_step)

lemma RenderForJSONAPI_u_keys: "\<forall>k \<in> dom (RenderForJSONAPI_u ts). ToValidUTF8 k = k"
  by (simp add: dom_RenderForJSONAPI_u ToValidUTF8_valid ValidString_keys)

lemma reading_json_document:
  "reading (json_document (RenderForJSONAPI_u ts)) k
     = map_option json_value (RenderForJSONAPI_u ts k)"
  unfolding json_document_def by (rule reading_members [OF RenderForJSONAPI_u_keys])

lemma syntheticResponse_json_document:
  assumes "list_all ValidStep (TmsCheck.Steps ts)"
  shows "syntheticResponse i (json_document (RenderForJSONAPI_u ts)) =
     Some \<lparr>TmsCheckResponse.ID = i, TmsCheckResponse.Name = ToValidUTF8 (TmsCheck.Name ts),
           TmsCheckResponse.Steps = TmsCheck.Steps ts,
           TmsCheckResponse.Active = TmsCheck.Active ts,
           TmsCheckResponse.ContactIds = TmsCheck.ContactIds ts,
           TmsCheckResponse.CustomMessage = ToValidUTF8 (TmsCheck.CustomMessage ts),
           TmsCheckResponse.IntegrationIds = TmsCheck.IntegrationIds ts,
           TmsCheckResponse.Interval = TmsCheck.Interval ts,
           TmsCheckResponse.Region = ToValidUTF8 (TmsCheck.Region ts),
           TmsCheckResponse.SendNotificationWhenDown = TmsCheck.SendNotificationWhenDown ts,
           TmsCheckResponse.SeverityLevel = ToValidUTF8 (TmsCheck.SeverityLevel ts),
           TmsCheckResponse.Tags = map ToValidUTF8 (RenderForJSONAPI_tags ts),
           TmsCheckResponse.TeamIds = TmsCheck.TeamIds ts\<rparr>"
  unfolding syntheticResponse_def
  by (simp add: reading_json_document RenderForJSONAPI_u_lookup those_read_steps [OF assms])

lemma tags_example: "map TrimSpace (Split ''a, b,c'' CHR '','') = [''a'', ''b'', ''c'']"
  by code_simp

lemma tags_of_example:
  "TmsCheck.Tags ts = ''a, b,c'' \<Longrightarrow> RenderForJSONAPI_tags ts = [''a'', ''b'', ''c'']"
  unfolding RenderForJSONAPI_tags_map using tags_example by simp

lemma same_document:
  "json_document (RenderForJSONAPI_u (NewTmsCheck [CHR 0xFF] []))
     = json_document (RenderForJSONAPI_u (NewTmsCheck [CHR 0xEF, CHR 0xBF, CHR 0xBD] []))"
  unfolding json_document_def
  by (rule members_cong) (simp add: RenderForJSONAPI_u_def RenderForJSONAPI_tags_def
      NewTmsCheck_def ToValidUTF8_examples)

text \<open>
  What comes back in general: when the body is read, the name of the round trip is
  the name written as UTF-8.
\<close>

lemma roundTrip_Name:
  assumes "parse (text (json_document (RenderForJSONAPI_u ts)))
             = Some (json_document (RenderForJSONAPI_u ts))"
    and "list_all ValidStep (TmsCheck.Steps ts)"
  shows "map_option TmsCheck.Name (roundTrip text parse i ts)
           = Some (ToValidUTF8 (TmsCheck.Name ts))"
  using assms
  by (simp add: roundTrip_def RenderForJSONAPI_def json_Marshal_def
      syntheticResponse_json_document fromTmsCheckResponse_def)

text \<open>
  C5, as the claim states it, fails: a check whose name is the one byte 0xFF, which
  is not UTF-8, and a check whose name is the replacement rune U+FFFD are written
  as the same document, so \<^verbatim>\<open>RenderForJSONAPI\<close> returns the same body for both and
  their round trips are the same, however the body is laid out and read: the name
  0xFF does not come back.
\<close>

theorem invalid_UTF8_name_is_lost:
  "TmsCheck.Name (NewTmsCheck [CHR 0xFF] [])
     \<noteq> TmsCheck.Name (NewTmsCheck [CHR 0xEF, CHR 0xBF, CHR 0xBD] [])
   \<and> reading (json_document (RenderForJSONAPI_u (NewTmsCheck [CHR 0xFF] []))) ''name''
       = Some (JString [CHR 0xEF, CHR 0xBF, CHR 0xBD])
   \<and> (\<forall>text. RenderForJSONAPI (json_Marshal text) (NewTmsCheck [CHR 0xFF] [])
         = RenderForJSONAPI (json_Marshal text) (NewTmsCheck [CHR 0xEF, CHR 0xBF, CHR 0xBD] []))
   \<and> (\<forall>text parse i. roundTrip text parse i (NewTmsCheck [CHR 0xFF] [])
         = roundTrip text parse i (NewTmsCheck [CHR 0xEF, CHR 0xBF, CHR 0xBD] []))"
proof -
  have name: "reading (json_document (RenderForJSONAPI_u (NewTmsCheck [CHR 0xFF] []))) ''name''
       = Some (JString [CHR 0xEF, CHR 0xBF, CHR 0xBD])"
    by (simp add: reading_json_document RenderForJSONAPI_u_lookup NewTmsCheck_def
        ToValidUTF8_examples)
  have body: "RenderForJSONAPI (json_Marshal layout) (NewTmsCheck [CHR 0xFF] [])
         = RenderForJSONAPI (json_Marshal layout) (NewTmsCheck [CHR 0xEF, CHR 0xBF, CHR 0xBD] [])"
    for layout
    by (simp add: RenderForJSONAPI_def json_Marshal_def same_document)
  have "TmsCheck.Name (NewTmsCheck [CHR 0xFF] [])
     \<noteq> TmsCheck.Name (NewTmsCheck [CHR 0xEF, CHR 0xBF, CHR 0xBD] [])"
    by (simp add: NewTmsCheck_def)
  with name body show ?thesis by (simp add: roundTrip_def)
qed

text \<open>
  C5, amended: for every check whose name, region and severity level are valid
  UTF-8 and whose steps hold valid UTF-8 only, rendering it with
  \<^verbatim>\<open>RenderForJSONAPI\<close> and mapping the synthetic response read from that body back
  through \<^verbatim>\<open>fromTmsCheckResponse\<close> gives a check with the same steps, name, region,
  severity level and interval; when the tags are \<open>a, b,c\<close> they are the list \<open>a\<close>,
  \<open>b\<close>, \<open>c\<close> in the body and come back joined as \<open>a,b,c\<close>. The body is read when
  \<open>parse\<close> gives back, from the text \<^verbatim>\<open>json.Marshal\<close> returns for this check, the
  document that was written.
\<close>

theorem round_trip:
  assumes "parse (text (json_document (RenderForJSONAPI_u ts)))
             = Some (json_document (RenderForJSONAPI_u ts))"
    and "ValidString (TmsCheck.Name ts)"
    and "ValidString (TmsCheck.Region ts)"
    and "ValidString (TmsCheck.SeverityLevel ts)"
    and "list_all ValidStep (TmsCheck.Steps ts)"
  shows "RenderForJSONAPI (json_Marshal text) ts = text (json_document (RenderForJSONAPI_u ts))
    \<and> (\<exists>c. roundTrip text parse i ts = Some c
        \<and> TmsCheck.Steps c = TmsCheck.Steps ts
        \<and> TmsCheck.Name c = TmsCheck.Name ts
        \<and> TmsCheck.Region c = TmsCheck.Region ts
        \<and> TmsCheck.SeverityLevel c = TmsCheck.SeverityLevel ts
        \<and> TmsCheck.Interval c = TmsCheck.Interval ts
        \<and> (TmsCheck.Tags ts = ''a, b,c''
             \<longrightarrow> RenderForJSONAPI_u ts ''tags'' = Some (VStrings [''a'', ''b'', ''c''])
                 \<and> TmsCheck.Tags c = ''a,b,c''))"
  using assms
  by (simp add: roundTrip_def RenderForJSONAPI_def json_Marshal_def
      syntheticResponse_json_document fromTmsCheckResponse_def ToValidUTF8_valid
      RenderForJSONAPI_u_lookup tags_of_example ValidString_examples)

lemma ValidStep_exampleSteps: "list_all ValidStep exampleSteps"
  by (simp add: exampleSteps_def ValidStep_def ValidString_examples)

theorem round_trip_witness:
  "ValidString ''web'' \<and> ValidString ''us-east'' \<and> ValidString ''high''
   \<and> list_all ValidStep exampleSteps
   \<and> exampleParse (exampleText (json_document (RenderForJSONAPI_u exampleCheck)))
       = Some (json_document (RenderForJSONAPI_u exampleCheck))
   \<and> RenderForJSONAPI (json_Marshal exampleText) exampleCheck = exampleBody
   \<and> (\<exists>c. roundTrip exampleText exampleParse 7 exampleCheck = Some c
          \<and> TmsCheck.Steps c = exampleSteps
          \<and> TmsCheck.Name c = ''web''
          \<and> TmsCheck.Region c = ''us-east''
          \<and> TmsCheck.SeverityLevel c = ''high''
          \<and> TmsCheck.Interval c = 10
          \<and> TmsCheck.Tags c = ''a,b,c'')"
  using round_trip [of exampleParse exampleText exampleCheck 7] ValidStep_exampleSteps
  by (auto simp add: exampleCheck_def NewTmsCheck_def exampleParse_def exampleText_def
      ValidString_examples)

section \<open>Properties of the report requests\<close>

lemmas enum_defs = DESC_def ASC_def HOUR_def DAY_def WEEK_def

text \<open>
  C6, as the claim states it, fails: the request with nothing set has the empty
  resolution, which is none of hour, day, week, and \<^verbatim>\<open>Valid()\<close> accepts it.
\<close>

theorem TmsPerformanceReportRequest_Valid_empty_Resolution:
  "Resolution emptyPerformanceRequest = ''''
   \<and> '''' \<notin> {''hour'', ''day'', ''week''}
   \<and> TmsPerformanceReportRequest_Valid emptyPerformanceRequest = None"
  by (simp add: TmsPerformanceReportRequest_Valid_def emptyPerformanceRequest_def)

text \<open>
  C6, amended: for every performance report request, \<^verbatim>\<open>Valid()\<close> fails for any
  resolution that is not one of hour, day, week or the empty string, and for any
  order that is not one of asc, desc or the empty string.
\<close>

theorem TmsPerformanceReportRequest_Valid_enums:
  "Resolution tr \<notin> {HOUR, DAY, WEEK, ''''}
     \<or> TmsPerformanceReportRequest.Order tr \<notin> {ASC, DESC, ''''}
   \<longrightarrow> TmsPerformanceReportRequest_Valid tr \<noteq> None"
  by (simp add: TmsPerformanceReportRequest_Valid_def)

theorem TmsPerformanceReportRequest_Valid_enums_witness:
  "TmsPerformanceReportRequest_Valid (emptyPerformanceRequest\<lparr>Resolution := ''month''\<rparr>) \<noteq> None
   \<and> TmsPerformanceReportRequest_Valid
       (emptyPerformanceRequest\<lparr>TmsPerformanceReportRequest.Order := ''sideways''\<rparr>) \<noteq> None"
  using
    TmsPerformanceReportRequest_Valid_enums
      [of "emptyPerformanceRequest\<lparr>Resolution := ''month''\<rparr>"]
    TmsPerformanceReportRequest_Valid_enums
      [of "emptyPerformanceRequest\<lparr>TmsPerformanceReportRequest.Order := ''sideways''\<rparr>"]
  by (simp add: emptyPerformanceRequest_def enum_defs)

text \<open>
  C8: for every report request of any of the three kinds with both \<open>From\<close> and \<open>To\<close>
  set and every other field valid (an order that is asc, desc or empty; an offset,
  if set, of at least 0 and a limit, if set, above 0; a resolution that is hour,
  day, week or empty), \<^verbatim>\<open>Valid()\<close> fails if and only if \<open>To\<close> is before \<open>From\<close>.
\<close>

theorem Valid_fails_iff_To_Before_From:
  "(TmsStatusReportListByIdRequest.From a = Some fa
      \<and> TmsStatusReportListByIdRequest.To a = Some ta
      \<and> TmsStatusReportListByIdRequest.Order a \<in> {DESC, ASC, ''''}
    \<longrightarrow> (TmsStatusReportListByIdRequest_Valid a \<noteq> None \<longleftrightarrow> Before ta fa))
   \<and> (TmsStatusReportListRequest.From b = Some fb
      \<and> TmsStatusReportListRequest.To b = Some tb
      \<and> TmsStatusReportListRequest.Order b \<in> {DESC, ASC, ''''}
      \<and> (\<forall>n. Offset b = Some n \<longrightarrow> 0 \<le> n) \<and> (\<forall>n. Limit b = Some n \<longrightarrow> 0 < n)
    \<longrightarrow> (TmsStatusReportListRequest_Valid b \<noteq> None \<longleftrightarrow> Before tb fb))
   \<and> (TmsPerformanceReportRequest.From c = Some fc
      \<and> TmsPerformanceReportRequest.To c = Some tc
      \<and> TmsPerformanceReportRequest.Order c \<in> {DESC, ASC, ''''}
      \<and> Resolution c \<in> {HOUR, DAY, WEEK, ''''}
    \<longrightarrow> (TmsPerformanceReportRequest_Valid c \<noteq> None \<longleftrightarrow> Before tc fc))"
  by (auto simp add: TmsStatusReportListByIdRequest_Valid_def TmsStatusReportListRequest_Valid_def
      TmsPerformanceReportRequest_Valid_def)

theorem Valid_fails_iff_To_Before_From_witness:
  "Before earlier later \<and> \<not> Before later earlier
   \<and> TmsStatusReportListByIdRequest_Valid
       (emptyByIdRequest\<lparr>TmsStatusReportListByIdRequest.From := Some later,
                         TmsStatusReportListByIdRequest.To := Some earlier\<rparr>) \<noteq> None
   \<and> TmsStatusReportListByIdRequest_Valid
       (emptyByIdRequest\<lparr>TmsStatusReportListByIdRequest.From := Some earlier,
                         TmsStatusReportListByIdRequest.To := Some later\<rparr>) = None
   \<and> TmsStatusReportListRequest_Valid
       (emptyListRequest\<lparr>TmsStatusReportListRequest.From := Some later,
                         TmsStatusReportListRequest.To := Some earlier\<rparr>) \<noteq> None
   \<and> TmsStatusReportListRequest_Valid
       (emptyListRequest\<lparr>TmsStatusReportListRequest.From := Some earlier,
                         TmsStatusReportListRequest.To := Some later\<rparr>) = None
   \<and> TmsPerformanceReportRequest_Valid
       (emptyPerformanceRequest\<lparr>TmsPerformanceReportRequest.From := Some later,
                                TmsPerformanceReportRequest.To := Some earlier\<rparr>) \<noteq> None
   \<and> TmsPerformanceReportRequest_Valid
       (emptyPerformanceRequest\<lparr>TmsPerformanceReportRequest.From := Some earlier,
                                TmsPerformanceReportRequest.To := Some later\<rparr>) = None"
  using
    Valid_fails_iff_To_Before_From
      [of "emptyByIdRequest\<lparr>TmsStatusReportListByIdRequest.From := Some later,
                             TmsStatusReportListByIdRequest.To := Some earlier\<rparr>"
          later earlier
          "emptyListRequest\<lparr>TmsStatusReportListRequest.From := Some later,
                             TmsStatusReportListRequest.To := Some earlier\<rparr>"
          later earlier
          "emptyPerformanceRequest\<lparr>TmsPerformanceReportRequest.From := Some later,
                                    TmsPerformanceReportRequest.To := Some earlier\<rparr>"
          later earlier]
    Valid_fails_iff_To_Before_From
      [of "emptyByIdRequest\<lparr>TmsStatusReportListByIdRequest.From := Some earlier,
                             TmsStatusReportListByIdRequest.To := Some later\<rparr>"
          earlier later
          "emptyListRequest\<lparr>TmsStatusReportListRequest.From := Some earlier,
                             TmsStatusReportListRequest.To := Some later\<rparr>"
          earlier later
          "emptyPerformanceRequest\<lparr>TmsPerformanceReportRequest.From := Some earlier,
                                    TmsPerformanceReportRequest.To := Some later\<rparr>"
          earlier later]
  by (simp add: emptyByIdRequest_def emptyListRequest_def emptyPerformanceRequest_def
      Before_def earlier_def later_def enum_defs)

text \<open>
  C9: for every status report list request, \<^verbatim>\<open>Valid()\<close> fails whenever \<open>Limit\<close> is
  set to a value of at most 0 or \<open>Offset\<close> is set to a value below 0, and it succeeds
  when \<open>Limit\<close> is 1 and \<open>Offset\<close> is 0 and the other fields are valid (an order that
  is asc, desc or empty, and no \<open>To\<close> before \<open>From\<close>).
\<close>

theorem TmsStatusReportListRequest_Valid_paging:
  "(Limit tr = Some l \<and> l \<le> 0 \<longrightarrow> TmsStatusReportListRequest_Valid tr \<noteq> None)
   \<and> (Offset tr = Some off \<and> off < 0 \<longrightarrow> TmsStatusReportListRequest_Valid tr \<noteq> None)
   \<and> (Limit tr = Some 1 \<and> Offset tr = Some 0
        \<and> TmsStatusReportListRequest.Order tr \<in> {DESC, ASC, ''''}
        \<and> \<not> (\<exists>t f. TmsStatusReportListRequest.To tr = Some t
                  \<and> TmsStatusReportListRequest.From tr = Some f \<and> Before t f)
      \<longrightarrow> TmsStatusReportListRequest_Valid tr = None)"
  by (auto simp add: TmsStatusReportListRequest_Valid_def)

theorem TmsStatusReportListRequest_Valid_paging_witness:
  "TmsStatusReportListRequest_Valid (emptyListRequest\<lparr>Limit := Some 0\<rparr>) \<noteq> None
   \<and> TmsStatusReportListRequest_Valid (emptyListRequest\<lparr>Offset := Some (- 1)\<rparr>) \<noteq> None
   \<and> TmsStatusReportListRequest_Valid
       (emptyListRequest\<lparr>Limit := Some 1, Offset := Some 0\<rparr>) = None"
  using
    TmsStatusReportListRequest_Valid_paging [of "emptyListRequest\<lparr>Limit := Some 0\<rparr>" 0 0]
    TmsStatusReportListRequest_Valid_paging
      [of "emptyListRequest\<lparr>Offset := Some (- 1)\<rparr>" 0 "- 1"]
    TmsStatusReportListRequest_Valid_paging
      [of "emptyListRequest\<lparr>Limit := Some 1, Offset := Some 0\<rparr>" 1 0]
  by (simp add: emptyListRequest_def enum_defs)

subsection \<open>The parameters of the query\<close>

lemma ById_params:
  "TmsStatusReportListByIdRequest_GetParams format a ''from''
     = map_option format (TmsStatusReportListByIdRequest.From a)"
  "TmsStatusReportListByIdRequest_GetParams format a ''to''
     = map_option format (TmsStatusReportListByIdRequest.To a)"
  "TmsStatusReportListByIdRequest_GetParams format a ''order''
     = (if TmsStatusReportListByIdRequest.Order a = [] then None
        else Some (TmsStatusReportListByIdRequest.Order a))"
  "TmsStatusReportListByIdRequest_GetParams format a ''omit_empty'' = None"
  "TmsStatusReportListByIdRequest_GetParams format a ''include_uptime'' = None"
  unfolding TmsStatusReportListByIdRequest_GetParams_def Let_def
  by (cases "TmsStatusReportListByIdRequest.From a";
      cases "TmsStatusReportListByIdRequest.To a"; simp)+

lemma List_params:
  "TmsStatusReportListRequest_GetParams format b ''from''
     = map_option format (TmsStatusReportListRequest.From b)"
  "TmsStatusReportListRequest_GetParams format b ''to''
     = map_option format (TmsStatusReportListRequest.To b)"
  "TmsStatusReportListRequest_GetParams format b ''offset'' = map_option Itoa (Offset b)"
  "TmsStatusReportListRequest_GetParams format b ''limit'' = map_option Itoa (Limit b)"
  "TmsStatusReportListRequest_GetParams format b ''order''
     = (if TmsStatusReportListRequest.Order b = [] then None
        else Some (TmsStatusReportListRequest.Order b))"
  "TmsStatusReportListRequest_GetParams format b ''omit_empty''
     = (if OmitEmpty b then Some ''true'' else None)"
  "TmsStatusReportListRequest_GetParams format b ''include_uptime'' = None"
  unfolding TmsStatusReportListRequest_GetParams_def Let_def
  by (cases "TmsStatusReportListRequest.From b"; cases "TmsStatusReportListRequest.To b";
      cases "Offset b"; cases "Limit b"; simp)+

lemma Performance_params:
  "TmsPerformanceReportRequest_GetParams format c ''from''
     = map_option format (TmsPerformanceReportRequest.From c)"
  "TmsPerformanceReportRequest_GetParams format c ''to''
     = map_option format (TmsPerformanceReportRequest.To c)"
  "TmsPerformanceReportRequest_GetParams format c ''order''
     = (if TmsPerformanceReportRequest.Order c = [] then None
        else Some (TmsPerformanceReportRequest.Order c))"
  "TmsPerformanceReportRequest_GetParams format c ''include_uptime''
     = (if IncludeUptime c then Some ''true'' else None)"
  "TmsPerformanceReportRequest_GetParams format c ''resolution''
     = (if Resolution c = [] then None else Some (Resolution c))"
  "TmsPerformanceReportRequest_GetParams format c ''omit_empty'' = None"
  unfolding TmsPerformanceReportRequest_GetParams_def Let_def
  by (cases "TmsPerformanceReportRequest.From c"; cases "TmsPerformanceReportRequest.To c";
      simp)+

text \<open>
  C7: for every report request of any of the three kinds, \<^verbatim>\<open>GetParams\<close> has no key
  for an optional field that is not set (\<open>From\<close>, \<open>To\<close>, \<open>Offset\<close>, \<open>Limit\<close> that are
  \<^verbatim>\<open>nil\<close>, an empty \<open>Order\<close>, an empty \<open>Resolution\<close>), and it has the keys
  \<open>omit_empty\<close> and \<open>include_uptime\<close> only when the flag of the request is set, with
  the value \<open>true\<close>: under these two keys there is either nothing or \<open>true\<close>.
\<close>

theorem GetParams_unset_fields_and_flags:
  "(TmsStatusReportListByIdRequest.From a = None
      \<longrightarrow> ''from'' \<notin> dom (TmsStatusReportListByIdRequest_GetParams format a))
   \<and> (TmsStatusReportListByIdRequest.To a = None
      \<longrightarrow> ''to'' \<notin> dom (TmsStatusReportListByIdRequest_GetParams format a))
   \<and> (TmsStatusReportListByIdRequest.Order a = ''''
      \<longrightarrow> ''order'' \<notin> dom (TmsStatusReportListByIdRequest_GetParams format a))
   \<and> ''omit_empty'' \<notin> dom (TmsStatusReportListByIdRequest_GetParams format a)
   \<and> ''include_uptime'' \<notin> dom (TmsStatusReportListByIdRequest_GetParams format a)
   \<and> (TmsStatusReportListRequest.From b = None
      \<longrightarrow> ''from'' \<notin> dom (TmsStatusReportListRequest_GetParams format b))
   \<and> (TmsStatusReportListRequest.To b = None
      \<longrightarrow> ''to'' \<notin> dom (TmsStatusReportListRequest_GetParams format b))
   \<and> (Offset b = None \<longrightarrow> ''offset'' \<notin> dom (TmsStatusReportListRequest_GetParams format b))
   \<and> (Limit b = None \<longrightarrow> ''limit'' \<notin> dom (TmsStatusReportListRequest_GetParams format b))
   \<and> (TmsStatusReportListRequest.Order b = ''''
      \<longrightarrow> ''order'' \<notin> dom (TmsStatusReportListRequest_GetParams format b))
   \<and> TmsStatusReportListRequest_GetParams format b ''omit_empty''
       = (if OmitEmpty b then Some ''true'' else None)
   \<and> ''include_uptime'' \<notin> dom (TmsStatusReportListRequest_GetParams format b)
   \<and> (TmsPerformanceReportRequest.From c = None
      \<longrightarrow> ''from'' \<notin> dom (TmsPerformanceReportRequest_GetParams format c))
   \<and> (TmsPerformanceReportRequest.To c = None
      \<longrightarrow> ''to'' \<notin> dom (TmsPerformanceReportRequest_GetParams format c))
   \<and> (TmsPerformanceReportRequest.Order c = ''''
      \<longrightarrow> ''order'' \<notin> dom (TmsPerformanceReportRequest_GetParams format c))
   \<and> (Resolution c = ''''
      \<longrightarrow> ''resolution'' \<notin> dom (TmsPerformanceReportRequest_GetParams format c))
   \<and> TmsPerformanceReportRequest_GetParams format c ''include_uptime''
       = (if IncludeUptime c then Some ''true'' else None)
   \<and> ''omit_empty'' \<notin> dom (TmsPerformanceReportRequest_GetParams format c)"
  by (simp add: domIff ById_params List_params Performance_params)

theorem GetParams_unset_fields_and_flags_witness:
  "''from'' \<notin> dom (TmsStatusReportListByIdRequest_GetParams (\<lambda>t. ''t'') emptyByIdRequest)
   \<and> ''to'' \<notin> dom (TmsStatusReportListByIdRequest_GetParams (\<lambda>t. ''t'') emptyByIdRequest)
   \<and> ''order'' \<notin> dom (TmsStatusReportListByIdRequest_GetParams (\<lambda>t. ''t'') emptyByIdRequest)
   \<and> ''from'' \<notin> dom (TmsStatusReportListRequest_GetParams (\<lambda>t. ''t'') emptyListRequest)
   \<and> ''to'' \<notin> dom (TmsStatusReportListRequest_GetParams (\<lambda>t. ''t'') emptyListRequest)
   \<and> ''offset'' \<notin> dom (TmsStatusReportListRequest_GetParams (\<lambda>t. ''t'') emptyListRequest)
   \<and> ''limit'' \<notin> dom (TmsStatusReportListRequest_GetParams (\<lambda>t. ''t'') emptyListRequest)
   \<and> ''order'' \<notin> dom (TmsStatusReportListRequest_GetParams (\<lambda>t. ''t'') emptyListRequest)
   \<and> TmsStatusReportListRequest_GetParams (\<lambda>t. ''t'') emptyListRequest ''omit_empty'' = None
   \<and> TmsStatusReportListRequest_GetParams (\<lambda>t. ''t'') (emptyListRequest\<lparr>OmitEmpty := True\<rparr>)
        ''omit_empty'' = Some ''true''
   \<and> ''from'' \<notin> dom (TmsPerformanceReportRequest_GetParams (\<lambda>t. ''t'') emptyPerformanceRequest)
   \<and> ''to'' \<notin> dom (TmsPerformanceReportRequest_GetParams (\<lambda>t. ''t'') emptyPerformanceRequest)
   \<and> ''order'' \<notin> dom (TmsPerformanceReportRequest_GetParams (\<lambda>t. ''t'') emptyPerformanceRequest)
   \<and> ''resolution''
        \<notin> dom (TmsPerformanceReportRequest_GetParams (\<lambda>t. ''t'') emptyPerformanceRequest)
   \<and> TmsPerformanceReportRequest_GetParams (\<lambda>t. ''t'') emptyPerformanceRequest
        ''include_uptime'' = None
   \<and> TmsPerformanceReportRequest_GetParams (\<lambda>t. ''t'')
        (emptyPerformanceRequest\<lparr>IncludeUptime := True\<rparr>) ''include_uptime'' = Some ''true''"
  using
    GetParams_unset_fields_and_flags
      [of emptyByIdRequest "\<lambda>t. ''t''" emptyListRequest emptyPerformanceRequest]
    GetParams_unset_fields_and_flags
      [of emptyByIdRequest "\<lambda>t. ''t''" "emptyListRequest\<lparr>OmitEmpty := True\<rparr>"
          "emptyPerformanceRequest\<lparr>IncludeUptime := True\<rparr>"]
  by (simp add: emptyByIdRequest_def emptyListRequest_def emptyPerformanceRequest_def)

section \<open>Properties of the service\<close>

text \<open>
  C3: for every operation that takes a validated value (Create, Update,
  StatusReportList, StatusReportById, PerformanceReport), if \<^verbatim>\<open>Valid()\<close> fails then
  the operation returns that error and the world is the one it started in, whatever
  the collaborators are: none of them is called, so no request is built and none is
  sent. In particular Create of a check with the region \<open>mars\<close> fails with an error
  of \<^verbatim>\<open>fmt.Errorf\<close> and leaves the world as it was.
\<close>

theorem validation_short_circuits:
  "(TmsCheck_Valid check = Some err
      \<longrightarrow> Create cs check w = (Failed err, w) \<and> Update cs i check w = (Failed err, w))
   \<and> (TmsStatusReportListRequest_Valid lr = Some err
      \<longrightarrow> StatusReportList cs lr w = (Failed err, w))
   \<and> (TmsStatusReportListByIdRequest_Valid br = Some err
      \<longrightarrow> StatusReportById cs i br w = (Failed err, w))
   \<and> (TmsPerformanceReportRequest_Valid pr = Some err
      \<longrightarrow> PerformanceReport cs i pr w = (Failed err, w))
   \<and> (TmsCheck.Region check = ''mars''
      \<longrightarrow> (\<exists>msg. Create cs check w = (Failed (Errorf msg), w)))"
proof -
  have mars: "\<exists>msg. Create cs check w = (Failed (Errorf msg), w)"
    if "TmsCheck.Region check = ''mars''"
  proof -
    from that obtain e where e: "TmsCheck_Valid check = Some e"
      using TmsCheck_Valid_mars [of check] by auto
    then obtain msg where "e = Errorf msg"
      using TmsCheck_Valid_Errorf by blast
    with e show ?thesis by (simp add: Create_def)
  qed
  show ?thesis
    using mars
    by (simp add: Create_def Update_def StatusReportList_def StatusReportById_def
        PerformanceReport_def)
qed

theorem validation_short_circuits_witness:
  "Create exampleService marsCheck 0
     = (Failed (Errorf (''invalid value mars for `Region`, allowed values are ''
          @ ''[\"us-east\", \"us-west\", \"eu\", \"au\"]'')), 0)
   \<and> Update exampleService 42 marsCheck 0
     = (Failed (Errorf (''invalid value mars for `Region`, allowed values are ''
          @ ''[\"us-east\", \"us-west\", \"eu\", \"au\"]'')), 0)
   \<and> StatusReportList exampleService (emptyListRequest\<lparr>Limit := Some 0\<rparr>) 0
     = (Failed (Errorf ''limit should be greater 0''), 0)
   \<and> StatusReportById exampleService 7
       (emptyByIdRequest\<lparr>TmsStatusReportListByIdRequest.Order := ''sideways''\<rparr>) 0
     = (Failed (Errorf ''invalid order allowed values are: asc, desc''), 0)
   \<and> PerformanceReport exampleService 7 (emptyPerformanceRequest\<lparr>Resolution := ''month''\<rparr>) 0
     = (Failed (Errorf ''invalid order allowed values are: hour, day. week''), 0)"
  using
    validation_short_circuits [of marsCheck
      "Errorf (''invalid value mars for `Region`, allowed values are ''
          @ ''[\"us-east\", \"us-west\", \"eu\", \"au\"]'')" exampleService 0 42]
    validation_short_circuits [of _ "Errorf ''limit should be greater 0''" exampleService 0 _
      "emptyListRequest\<lparr>Limit := Some 0\<rparr>"]
    validation_short_circuits [of _ "Errorf ''invalid order allowed values are: asc, desc''"
      exampleService 0 7 _
      "emptyByIdRequest\<lparr>TmsStatusReportListByIdRequest.Order := ''sideways''\<rparr>"]
    validation_short_circuits [of _ "Errorf ''invalid order allowed values are: hour, day. week''"
      exampleService 0 7 _ _ "emptyPerformanceRequest\<lparr>Resolution := ''month''\<rparr>"]
  by (simp add: marsCheck_def NewTmsCheck_def TmsCheck_Valid_def emptyListRequest_def
      emptyByIdRequest_def emptyPerformanceRequest_def
      TmsStatusReportListRequest_Valid_def TmsStatusReportListByIdRequest_Valid_def
      TmsPerformanceReportRequest_Valid_def enum_defs)

text \<open>
  When the check is valid the example service is called twice, to build the request
  and to send it (its answer holds no check, which makes Create panic).
\<close>

lemma Create_valid_calls:
  "Create exampleService (NewTmsCheck ''web'' []) 0 = (Panicked, 2)"
  by (simp add: Create_def exampleService_def NewTmsCheck_def TmsCheck_Valid_def
      checkOfDetails_def)

text \<open>
  C4: when the request is built, the transport returns a response that
  \<^verbatim>\<open>validateResponse\<close> accepts (a 2xx status), and \<^verbatim>\<open>json.Unmarshal\<close> returns an
  error for its body, \<^verbatim>\<open>List\<close> does not return that error: it returns a \<^verbatim>\<open>nil\<close>
  error with the checks the decoder has left in \<open>m\<close>, possibly none. (A decoder
  that fails leaves the pointer \<open>m\<close> as it is, so \<open>m\<close> is not \<^verbatim>\<open>nil\<close>.)
\<close>

theorem List_discards_decode_error:
  assumes "client_NewRequest cs ''GET'' ''/tms/check''
             (if length params = 1 then params ! 0 else Map.empty) w = (Inr req, w1)"
    and "client_client_Do cs req w1 = (Inr resp, w2)"
    and "validateResponse cs resp = None"
    and "ReadAll cs resp w2 = (body, w3)"
    and "Unmarshal cs body = (Some m, Some err)"
  shows "List cs params w
           = (Returned (map fromTmsCheckResponse (TmsChecks m)), Body_Close cs resp w3)"
  using assms by (simp add: List_def foldl_snoc_map)

theorem List_discards_decode_error_witness:
  "Unmarshal exampleService ''<html>''
     = (Some \<lparr>TmsChecks = []\<rparr>, Some (DecodeError ''invalid character''))
   \<and> List exampleService [] 0 = (Returned [], 4)"
  using List_discards_decode_error [of exampleService "[]" 0 "(''GET'', ''/tms/check'')" 1
      "''<html>''" 2 "''<html>''" 3 "\<lparr>TmsChecks = []\<rparr>" "DecodeError ''invalid character''"]
  by (simp add: exampleService_def)

end
